theory Spec2Isabelle
  imports Complex_Main "HOL-Library.Log_Nat"
begin

section \<open>NumPy array arithmetic used by the notebook\<close>

text \<open>
  The notebook \<^verbatim>\<open>LineFitting.ipynb\<close> works on one-dimensional NumPy arrays
  (and Pandas series) of numbers. A one-dimensional array is modelled as a list, a
  two-dimensional array as the list of its rows. The element type is left open wherever
  only \<open>*\<close>, \<open>+\<close> and \<open>-\<close> are used, so that those statements hold for every
  interpretation of the arithmetic, the notebook's IEEE doubles (the type \<open>float64\<close>
  below) among them. Square roots are taken over the reals.

  Binary operations of two arrays raise \<^verbatim>\<open>ValueError\<close> when the shapes cannot
  be broadcast together; unpacking an array into the two parameters of the model raises
  \<^verbatim>\<open>TypeError\<close> unless it holds exactly two entries.
\<close>

datatype error = ValueError | TypeError

text \<open>\<^verbatim>\<open>k * xs\<close> for a scalar \<open>k\<close> and an array \<open>xs\<close>.\<close>

definition np_scalar_mul :: "'a::times \<Rightarrow> 'a list \<Rightarrow> 'a list" where
  "np_scalar_mul k xs = map (\<lambda>x. k * x) xs"

text \<open>\<^verbatim>\<open>xs + c\<close> for an array \<open>xs\<close> and a scalar \<open>c\<close>.\<close>

definition np_add_scalar :: "'a::plus list \<Rightarrow> 'a \<Rightarrow> 'a list" where
  "np_add_scalar xs c = map (\<lambda>v. v + c) xs"

text \<open>
  \<^verbatim>\<open>xs + ys\<close> and \<^verbatim>\<open>xs - ys\<close> for two one-dimensional arrays: element by
  element when the lengths agree, an array of length one is stretched over the other, and
  any other pair of shapes is an error.
\<close>

definition np_add :: "'a::plus list \<Rightarrow> 'a list \<Rightarrow> error + 'a list" where
  "np_add xs ys =
     (if length xs = length ys then Inr (map2 (\<lambda>x y. x + y) xs ys)
      else if length xs = 1 then Inr (map (\<lambda>y. hd xs + y) ys)
      else if length ys = 1 then Inr (map (\<lambda>x. x + hd ys) xs)
      else Inl ValueError)"

definition np_sub :: "'a::minus list \<Rightarrow> 'a list \<Rightarrow> error + 'a list" where
  "np_sub xs ys =
     (if length xs = length ys then Inr (map2 (\<lambda>x y. x - y) xs ys)
      else if length xs = 1 then Inr (map (\<lambda>y. hd xs - y) ys)
      else if length ys = 1 then Inr (map (\<lambda>x. x - hd ys) xs)
      else Inl ValueError)"

text \<open>
  \<^verbatim>\<open>np.diag(M)\<close> of a two-dimensional array: the entries \<open>M[i][i]\<close> for \<open>i\<close> below
  both the number of rows and the number of columns.
\<close>

definition np_diag :: "'a list list \<Rightarrow> 'a list" where
  "np_diag M =
     map (\<lambda>i. M ! i ! i)
       [0 ..< min (length M) (case M of [] \<Rightarrow> 0 | r # _ \<Rightarrow> length r)]"

text \<open>
  \<^verbatim>\<open>np.sqrt(xs)\<close>, element by element. On a negative entry NumPy warns and
  stores \<^verbatim>\<open>nan\<close>, which no real number stands for; every statement below that
  goes through \<open>np_sqrt\<close> is therefore made for non-negative entries only.
\<close>

definition np_sqrt :: "real list \<Rightarrow> real list" where
  "np_sqrt xs = map sqrt xs"


section \<open>The straight-line model\<close>

text \<open>
  \<^verbatim>\<open>
  def StrtLineModel(x, m, c):
      y_lin = m*x + c
      return (y_lin)
  \<close>
  Python dispatches \<open>*\<close> and \<open>+\<close> on the run-time type of \<open>x\<close>. Called with a
  number, the function is \<open>StrtLineModel\<close>; called with an array or series (as
  \<^verbatim>\<open>curve_fit\<close> and the plotting cells do) it is \<open>StrtLineModel_arr\<close>, where
  \<open>m*x\<close> is a scalar times an array and \<open>+ c\<close> adds a scalar to an array.
\<close>

definition StrtLineModel :: "'a::{times,plus} \<Rightarrow> 'a \<Rightarrow> 'a \<Rightarrow> 'a" where
  "StrtLineModel x m c = (let y_lin = m * x + c in y_lin)"

definition StrtLineModel_arr :: "'a::{times,plus} list \<Rightarrow> 'a \<Rightarrow> 'a \<Rightarrow> 'a list" where
  "StrtLineModel_arr x m c = (let y_lin = np_add_scalar (np_scalar_mul m x) c in y_lin)"



section \<open>Standard errors and confidence limits\<close>

text \<open>
  \<^verbatim>\<open>
  perr = np.sqrt(np.diag(pcov))

  nstd = 1.0
  popt_upper = popt + nstd*perr
  popt_lower = popt - nstd*perr
  y_fit = StrtLineModel(x, *popt)
  fit_upper = StrtLineModel(x, *popt_upper)
  fit_lower = StrtLineModel(x, *popt_lower)
  \<close>
  The notebook's variables become functions of the variables they are computed from;
  \<open>nstd\<close> is a parameter, and the array of standard errors that the limits are built
  from is the parameter \<open>errs\<close>.
\<close>

definition perr :: "real list list \<Rightarrow> real list" where
  "perr pcov = np_sqrt (np_diag pcov)"

definition popt_upper :: "'a::{times,plus} list \<Rightarrow> 'a \<Rightarrow> 'a list \<Rightarrow> error + 'a list" where
  "popt_upper popt nstd errs = np_add popt (np_scalar_mul nstd errs)"

definition popt_lower :: "'a::{times,minus} list \<Rightarrow> 'a \<Rightarrow> 'a list \<Rightarrow> error + 'a list" where
  "popt_lower popt nstd errs = np_sub popt (np_scalar_mul nstd errs)"





section \<open>The notebook's numbers: IEEE 754 binary64\<close>

text \<open>
  Python's \<^verbatim>\<open>float\<close> and NumPy's \<^verbatim>\<open>float64\<close> are IEEE 754 binary64
  numbers: every finite value is a rational number \<open>n * 2 ^ e\<close> with \<open>\<bar>n\<bar> < 2 ^ 53\<close> and
  \<open>- 1074 \<le> e \<le> 971\<close>, and the result of an arithmetic operation is the exact result
  rounded to the nearest such value, ties going to the even significand. A finite value is
  modelled by the rational number it stands for; the two zeros are not told apart (they
  compare equal and the notebook never divides by one).
\<close>

datatype float64 = Finite rat | PInf | NInf | NaN

definition pow2 :: "int \<Rightarrow> rat" where
  "pow2 e = (if 0 \<le> e then 2 ^ nat e else 1 / 2 ^ nat (- e))"

text \<open>
  The binary exponent of a positive rational \<open>a\<close>, the \<open>e\<close> with
  \<open>2 ^ e \<le> a < 2 ^ (e + 1)\<close>: one less than the number of bits of \<open>\<lfloor>a\<rfloor>\<close> when
  \<open>1 \<le> a\<close>, and otherwise the least \<open>j\<close> with \<open>1 / a \<le> 2 ^ j\<close>, negated.
\<close>

definition exponent :: "rat \<Rightarrow> int" where
  "exponent a = (if 1 \<le> a then bitlen \<lfloor>a\<rfloor> - 1 else - bitlen (\<lceil>1 / a\<rceil> - 1))"

definition round_half_even :: "rat \<Rightarrow> int" where
  "round_half_even q =
     (let f = \<lfloor>q\<rfloor>; d = q - of_int f
      in if d < 1 / 2 then f else if 1 / 2 < d then f + 1 else if even f then f else f + 1)"

text \<open>
  Rounding an exact result to binary64: 53 significant bits, exponents below \<open>- 1022\<close>
  share the spacing \<open>2 ^ - 1074\<close> of the subnormal numbers, and a rounded magnitude
  \<open>n * 2 ^ (e - 52)\<close> of \<open>2 ^ 1024\<close> or more (an exponent above \<open>1023\<close>, or the
  exponent \<open>1023\<close> with the significand rounded up to \<open>2 ^ 53\<close>) overflows to an
  infinity.
\<close>

definition round64 :: "rat \<Rightarrow> float64" where
  "round64 x =
     (if x = 0 then Finite 0
      else
        let e = max (exponent \<bar>x\<bar>) (- 1022);
            ulp = pow2 (e - 52);
            n = round_half_even (\<bar>x\<bar> / ulp)
        in if 1023 < e \<or> (e = 1023 \<and> 2 ^ 53 \<le> n) then (if 0 < x then PInf else NInf)
           else Finite (sgn x * (of_int n * ulp)))"

fun f64_add :: "float64 \<Rightarrow> float64 \<Rightarrow> float64" where
  "f64_add (Finite a) (Finite b) = round64 (a + b)"
| "f64_add NaN _ = NaN"
| "f64_add _ NaN = NaN"
| "f64_add PInf NInf = NaN"
| "f64_add NInf PInf = NaN"
| "f64_add PInf _ = PInf"
| "f64_add _ PInf = PInf"
| "f64_add NInf _ = NInf"
| "f64_add _ NInf = NInf"

fun f64_neg :: "float64 \<Rightarrow> float64" where
  "f64_neg (Finite a) = Finite (- a)"
| "f64_neg PInf = NInf"
| "f64_neg NInf = PInf"
| "f64_neg NaN = NaN"

fun f64_mul :: "float64 \<Rightarrow> float64 \<Rightarrow> float64" where
  "f64_mul (Finite a) (Finite b) = round64 (a * b)"
| "f64_mul NaN _ = NaN"
| "f64_mul _ NaN = NaN"
| "f64_mul (Finite a) PInf = (if a = 0 then NaN else if 0 < a then PInf else NInf)"
| "f64_mul (Finite a) NInf = (if a = 0 then NaN else if 0 < a then NInf else PInf)"
| "f64_mul PInf (Finite b) = (if b = 0 then NaN else if 0 < b then PInf else NInf)"
| "f64_mul NInf (Finite b) = (if b = 0 then NaN else if 0 < b then NInf else PInf)"
| "f64_mul PInf PInf = PInf"
| "f64_mul NInf NInf = PInf"
| "f64_mul PInf NInf = NInf"
| "f64_mul NInf PInf = NInf"

text \<open>Comparisons: every comparison with \<^verbatim>\<open>nan\<close> is false.\<close>

fun f64_less :: "float64 \<Rightarrow> float64 \<Rightarrow> bool" where
  "f64_less (Finite a) (Finite b) = (a < b)"
| "f64_less NaN _ = False"
| "f64_less _ NaN = False"
| "f64_less NInf NInf = False"
| "f64_less NInf _ = True"
| "f64_less _ NInf = False"
| "f64_less PInf _ = False"
| "f64_less _ PInf = True"

fun f64_le :: "float64 \<Rightarrow> float64 \<Rightarrow> bool" where
  "f64_le (Finite a) (Finite b) = (a \<le> b)"
| "f64_le NaN _ = False"
| "f64_le _ NaN = False"
| "f64_le NInf _ = True"
| "f64_le _ PInf = True"
| "f64_le _ NInf = False"
| "f64_le PInf _ = False"

instantiation float64 :: "{plus, minus, times, ord}"
begin

definition plus_float64 :: "float64 \<Rightarrow> float64 \<Rightarrow> float64" where
  "plus_float64 a b = f64_add a b"

definition minus_float64 :: "float64 \<Rightarrow> float64 \<Rightarrow> float64" where
  "minus_float64 a b = f64_add a (f64_neg b)"

definition times_float64 :: "float64 \<Rightarrow> float64 \<Rightarrow> float64" where
  "times_float64 a b = f64_mul a b"

definition less_float64 :: "float64 \<Rightarrow> float64 \<Rightarrow> bool" where
  "less_float64 a b = f64_less a b"

definition less_eq_float64 :: "float64 \<Rightarrow> float64 \<Rightarrow> bool" where
  "less_eq_float64 a b = f64_le a b"

instance ..

end





section \<open>The estimators, as the specification describes them\<close>

text \<open>
  The notebook obtains its fits from \<^verbatim>\<open>scipy.stats.linregress\<close>,
  \<^verbatim>\<open>scipy.optimize.curve_fit\<close> and \<^verbatim>\<open>scipy.odr\<close>, whose code is not part of
  the repository. The definitions of this section are therefore written from the
  specification's description of the estimators, in exact (real) arithmetic; the model
  function they fit is the notebook's \<open>StrtLineModel\<close>, and the standard errors are taken
  from a covariance matrix by the notebook's \<open>perr\<close>.
\<close>

text \<open>
  Modelled from the spec: the DataSet that the data source hands to the SciPy estimators
  (section 3), "four aligned ordered sequences" of x-values, y-values, x-uncertainties and
  y-uncertainties, named as the columns of section 6. The four sequences are kept as one
  sequence of rows, which makes their alignment part of the type.
\<close>

record point =
  xdat :: real
  ydat :: real
  xerr :: real
  yerr :: real

text \<open>
  Modelled from the spec: the failures that the absent estimators report, the error
  taxonomy of section 7.
\<close>

datatype fit_error = DegenerateInput | InvalidUncertainty | NonConvergence | MissingCovariance





text \<open>
  Modelled from the spec: the sums of the "closed-form normal-equations solution"
  (section 4.2) and of the "weighted normal equations" (section 4.3) that the absent
  estimators solve: \<open>\<Sum>w f\<close> for a weight \<open>w\<close> and a quantity \<open>f\<close> of every point.
\<close>

definition wsum :: "(point \<Rightarrow> real) \<Rightarrow> (point \<Rightarrow> real) \<Rightarrow> point list \<Rightarrow> real" where
  "wsum w f pts = sum_list (map (\<lambda>p. w p * f p) pts)"

text \<open>
  Modelled from the spec: the determinant of the normal equations of the absent
  estimators. With \<open>S = \<Sum>w\<close>, \<open>Sx = \<Sum>w x\<close>, \<open>Sy = \<Sum>w y\<close>, \<open>Sxx = \<Sum>w x\<^sup>2\<close> and
  \<open>Sxy = \<Sum>w x y\<close> the normal equations of the weighted objective are
  \<open>Sxx m + Sx c = Sxy\<close> and \<open>Sx m + S c = Sy\<close>, and "the system is singular"
  (section 4.2) when \<open>S Sxx - Sx\<^sup>2\<close> is zero.
\<close>

definition normal_det :: "(point \<Rightarrow> real) \<Rightarrow> point list \<Rightarrow> real" where
  "normal_det w pts =
     wsum w (\<lambda>p. 1) pts * wsum w (\<lambda>p. xdat p * xdat p) pts - wsum w xdat pts * wsum w xdat pts"








section \<open>The model on scalars and on sequences\<close>

lemma StrtLineModel_arr_map:
  "StrtLineModel_arr xs m c = map (\<lambda>v. StrtLineModel v m c) xs"
  by (simp add: StrtLineModel_arr_def StrtLineModel_def np_add_scalar_def np_scalar_mul_def)

text \<open>
  Claim C9. Evaluating the model at a number \<open>x\<close> gives \<open>m * x + c\<close>, and evaluating
  it at the one-element sequence \<open>[x]\<close> gives the one-element sequence holding that same
  value. For a sequence of any length the result has the length of the input and its
  entry at each position is the scalar evaluation of the entry of the input there. The
  statement holds for every type with a multiplication and an addition, so it needs no
  assumption on the parameters.
\<close>

theorem StrtLineModel_scalar_sequence:
  "StrtLineModel x m c = m * x + c
   \<and> StrtLineModel_arr [x] m c = [StrtLineModel x m c]
   \<and> StrtLineModel_arr xs m c = map (\<lambda>v. StrtLineModel v m c) xs
   \<and> length (StrtLineModel_arr xs m c) = length xs"
  by (simp add: StrtLineModel_arr_map) (simp add: StrtLineModel_def)


section \<open>The parameters of the limit lines\<close>

lemma np_diag_2x2: "np_diag [[a, b], [b', d]] = [a, d]"
  by (simp add: np_diag_def upt_rec)

lemma np_diag_nth: "i < length (np_diag M) \<Longrightarrow> np_diag M ! i = M ! i ! i"
  by (simp add: np_diag_def)

lemma popt_upper_same_length:
  "length popt = length errs \<Longrightarrow>
     popt_upper popt nstd errs = Inr (map2 (\<lambda>p e. p + nstd * e) popt errs)"
  by (simp add: popt_upper_def np_add_def np_scalar_mul_def zip_map2 split_def)

lemma popt_lower_same_length:
  "length popt = length errs \<Longrightarrow>
     popt_lower popt nstd errs = Inr (map2 (\<lambda>p e. p - nstd * e) popt errs)"
  by (simp add: popt_lower_def np_sub_def np_scalar_mul_def zip_map2 split_def)

text \<open>
  Claim C8. Let the fit hold the parameters \<open>[m, c]\<close> and a covariance matrix with the
  non-negative diagonal \<open>a\<close>, \<open>d\<close> (its off-diagonal entries are arbitrary). The
  standard errors are then \<open>[sqrt a, sqrt d]\<close>, the non-negative numbers whose squares
  are the diagonal entries, and for every multiplier \<open>k\<close> the upper parameters are
  exactly \<open>[m + k * sqrt a, c + k * sqrt d]\<close> and the lower parameters exactly
  \<open>[m - k * sqrt a, c - k * sqrt d]\<close>. The notebook sets the multiplier \<open>nstd\<close> to
  \<open>1.0\<close>; the computation is the same for every value of it.
\<close>

theorem confidence_limit_parameters:
  assumes "0 \<le> a" and "0 \<le> d"
  shows "perr [[a, b], [b', d]] = [sqrt a, sqrt d]
     \<and> 0 \<le> sqrt a \<and> (sqrt a)\<^sup>2 = a \<and> 0 \<le> sqrt d \<and> (sqrt d)\<^sup>2 = d
     \<and> popt_upper [m, c] k (perr [[a, b], [b', d]]) = Inr [m + k * sqrt a, c + k * sqrt d]
     \<and> popt_lower [m, c] k (perr [[a, b], [b', d]]) = Inr [m - k * sqrt a, c - k * sqrt d]"
proof -
  have e: "perr [[a, b], [b', d]] = [sqrt a, sqrt d]"
    by (simp add: perr_def np_sqrt_def np_diag_2x2)
  show ?thesis
    using assms by (simp add: e popt_upper_same_length popt_lower_same_length)
qed

text \<open>
  The fit \<open>m = 2\<close>, \<open>c = 1\<close> with variances \<open>4\<close> and \<open>1\<close> and the multiplier \<open>3\<close>:
  the standard errors are \<open>2\<close> and \<open>1\<close>, the limits \<open>[8, 4]\<close> and \<open>[-4, -2]\<close>.
\<close>

theorem confidence_limit_parameters_witness:
  "(0::real) \<le> 4 \<and> (0::real) \<le> 1
   \<and> perr [[4, 1], [1, 1]] = [2, 1]
   \<and> popt_upper [2, 1] 3 (perr [[4, 1], [1, 1]]) = Inr [8, 4]
   \<and> popt_lower [2, 1] 3 (perr [[4, 1], [1, 1]]) = Inr [-4, -2]"
proof -
  have h: "(0::real) \<le> 4" "(0::real) \<le> 1"
    by simp_all
  note t = confidence_limit_parameters [OF h, of 1 1 2 1 3, simplified]
  show ?thesis
    using h t by blast
qed


section \<open>Where the limit lines cross\<close>



















section \<open>The normal equations\<close>

lemma wsum_Nil [simp]: "wsum w f [] = 0"
  by (simp add: wsum_def)

lemma wsum_Cons [simp]: "wsum w f (p # pts) = w p * f p + wsum w f pts"
  by (simp add: wsum_def)


lemma wsum_linear:
  assumes "\<forall>p\<in>set pts. f p = a * g p + b * h p"
  shows "wsum w f pts = a * wsum w g pts + b * wsum w h pts"
  using assms by (induction pts) (simp_all add: algebra_simps)


lemma wsum_unit_count: "wsum (\<lambda>p. 1) (\<lambda>p. 1) pts = real (length pts)"
  by (induction pts) simp_all












lemma identical_normal_det_zero:
  assumes "\<forall>p\<in>set pts. xdat p = a"
  shows "normal_det (\<lambda>p. 1) pts = 0"
proof -
  have x: "wsum (\<lambda>p. 1) xdat pts = a * real (length pts)"
    using wsum_linear [of pts xdat a "\<lambda>p. 1" 0 "\<lambda>p. 1" "\<lambda>p. 1"] assms
    by (simp add: wsum_unit_count)
  have xx: "wsum (\<lambda>p. 1) (\<lambda>p. xdat p * xdat p) pts = a * a * real (length pts)"
    using wsum_linear [of pts "\<lambda>p. xdat p * xdat p" "a * a" "\<lambda>p. 1" 0 "\<lambda>p. 1" "\<lambda>p. 1"] assms
    by (simp add: wsum_unit_count)
  show ?thesis
    by (simp add: normal_det_def x xx wsum_unit_count)
qed








section \<open>Data that lie on a line\<close>


















section \<open>Uniform weights do not move the optimum\<close>






section \<open>Weighted least squares\<close>















end
